theory Spec2Isabelle
  imports Main
begin

section \<open>Values of the host language\<close>

text \<open>
  A property that a JavaScript object may leave out (\<open>undefined\<close>), hold as \<open>null\<close>, or
  hold as a value. The hooks of \<open>AccessToken\<close> tell the three apart for
  \<open>client.expireAccessTokenIn\<close>.
\<close>

datatype 'a js_opt = Undefined | Null | Val 'a

text \<open>
  Everything the modelled code can throw. \<open>SyntaxError\<close> is what \<open>new RegExp\<close> throws;
  \<open>UnsupportedRegExp\<close> marks a pattern or a flag outside the fragment of the regular
  expression language modelled below (the model does not say what the code does there).
\<close>

datatype error =
    SyntaxError
  | UnsupportedRegExp
  | TypeError
  | CouldNotFindTokenForScopeError "string option"
  | NotAuthorizedToUseScopesError "string list"
  | DuplicateKeyError

section \<open>The fragment of \<open>RegExp\<close> used by scopes\<close>

text \<open>
  Strings are lists of 8-bit characters, so the model covers ASCII scopes. The fragment:
  ordinary characters, \<open>.\<close>, \<open>^\<close>, \<open>$\<close>, and a backslash before a syntax character
  or before \<open>/\<close>; flags \<open>g\<close>, \<open>i\<close>, \<open>m\<close>, \<open>s\<close>, \<open>y\<close>. Quantifiers, groups,
  classes, alternation and the other escapes are reported as \<open>UnsupportedRegExp\<close>.
\<close>

datatype atom = Lit char | AnyChar | Bol | Eol

record regexp =
  atoms :: "atom list"
  global :: bool
  ignoreCase :: bool
  multiline :: bool
  dotAll :: bool
  sticky :: bool

definition syntax_chars :: "char list" where
  "syntax_chars = ''^$'' @ [CHR 0x5C] @ ''.*+?()[]{}|''"

fun parse_pattern :: "string \<Rightarrow> error + atom list" where
  "parse_pattern [] = Inr []"
| "parse_pattern (c # cs) =
     (if c = CHR 0x5C then
        (case cs of
           [] \<Rightarrow> Inl SyntaxError
         | d # ds \<Rightarrow>
             if d \<in> set syntax_chars \<or> d = CHR ''/'' then
               (case parse_pattern ds of Inl e \<Rightarrow> Inl e | Inr as \<Rightarrow> Inr (Lit d # as))
             else Inl UnsupportedRegExp)
      else if c \<in> set ''*+?()[]{}|'' then Inl UnsupportedRegExp
      else
        (case parse_pattern cs of
           Inl e \<Rightarrow> Inl e
         | Inr as \<Rightarrow>
             Inr ((if c = CHR ''^'' then Bol
                   else if c = CHR ''$'' then Eol
                   else if c = CHR ''.'' then AnyChar
                   else Lit c) # as)))"

definition RegExp :: "string \<Rightarrow> string \<Rightarrow> error + regexp" where
  "RegExp pattern flags =
     (if (\<exists>f \<in> set flags. f \<notin> set ''dgimsuvy'') \<or> \<not> distinct flags then Inl SyntaxError
      else if (\<exists>f \<in> set flags. f \<in> set ''duv'') then Inl UnsupportedRegExp
      else
        (case parse_pattern pattern of
           Inl e \<Rightarrow> Inl e
         | Inr as \<Rightarrow>
             Inr \<lparr>atoms = as,
                  global = (CHR ''g'' \<in> set flags),
                  ignoreCase = (CHR ''i'' \<in> set flags),
                  multiline = (CHR ''m'' \<in> set flags),
                  dotAll = (CHR ''s'' \<in> set flags),
                  sticky = (CHR ''y'' \<in> set flags)\<rparr>))"

definition is_line_terminator :: "char \<Rightarrow> bool" where
  "is_line_terminator c = (c = CHR 0x0A \<or> c = CHR 0x0D)"

definition canonicalize :: "bool \<Rightarrow> char \<Rightarrow> char" where
  "canonicalize ic c =
     (if ic then
        (case map_of (zip ''abcdefghijklmnopqrstuvwxyz'' ''ABCDEFGHIJKLMNOPQRSTUVWXYZ'') c of
           Some u \<Rightarrow> u
         | None \<Rightarrow> c)
      else c)"

text \<open>
  \<open>match_here re as prev s\<close>: the atoms \<open>as\<close> matched at the current position, where
  \<open>prev\<close> is the character before it (none at the start of the input) and \<open>s\<close> the
  rest of the input. The fragment has no choice points, so the result is the unmatched rest.
\<close>

fun match_here :: "regexp \<Rightarrow> atom list \<Rightarrow> char option \<Rightarrow> string \<Rightarrow> string option" where
  "match_here re [] prev s = Some s"
| "match_here re (Bol # as) prev s =
     (if prev = None \<or> (multiline re \<and> is_line_terminator (the prev))
      then match_here re as prev s else None)"
| "match_here re (Eol # as) prev s =
     (if s = [] \<or> (multiline re \<and> is_line_terminator (hd s))
      then match_here re as prev s else None)"
| "match_here re (AnyChar # as) prev [] = None"
| "match_here re (AnyChar # as) prev (c # s) =
     (if dotAll re \<or> \<not> is_line_terminator c then match_here re as (Some c) s else None)"
| "match_here re (Lit a # as) prev [] = None"
| "match_here re (Lit a # as) prev (c # s) =
     (if canonicalize (ignoreCase re) a = canonicalize (ignoreCase re) c
      then match_here re as (Some c) s else None)"

text \<open>
  The search of \<open>RegExp.prototype.exec\<close> on a fresh expression (\<open>lastIndex = 0\<close>): the
  leftmost position where the atoms match, only position 0 when the expression is sticky.
  The result is the input cut into the part before the match and the part after it.
\<close>

fun search_from :: "regexp \<Rightarrow> char option \<Rightarrow> string \<Rightarrow> string \<Rightarrow> (string \<times> string) option" where
  "search_from re prev before [] =
     (case match_here re (atoms re) prev [] of
        Some rest \<Rightarrow> Some (rev before, rest)
      | None \<Rightarrow> None)"
| "search_from re prev before (c # s) =
     (case match_here re (atoms re) prev (c # s) of
        Some rest \<Rightarrow> Some (rev before, rest)
      | None \<Rightarrow> if sticky re then None else search_from re (Some c) (c # before) s)"

definition regexp_test :: "regexp \<Rightarrow> string \<Rightarrow> bool" where
  "regexp_test re s = (search_from re None [] s \<noteq> None)"

text \<open>
  \<open>s.replace(re, '')\<close> for an expression without the \<open>g\<close> flag: the first match is cut out.
\<close>

definition replace_empty :: "regexp \<Rightarrow> string \<Rightarrow> string" where
  "replace_empty re s =
     (case search_from re None [] s of
        None \<Rightarrow> s
      | Some (before, rest) \<Rightarrow> before @ rest)"

section \<open>String helpers\<close>

fun split_on :: "char \<Rightarrow> string \<Rightarrow> string list" where
  "split_on sep [] = [[]]"
| "split_on sep (c # cs) =
     (if c = sep then [] # split_on sep cs
      else (case split_on sep cs of
              [] \<Rightarrow> [[c]]
            | w # ws \<Rightarrow> (c # w) # ws))"

fun join :: "char \<Rightarrow> string list \<Rightarrow> string" where
  "join sep [] = []"
| "join sep [w] = w"
| "join sep (w # v # ws) = w @ sep # join sep (v # ws)"

section \<open>The token record\<close>

datatype token_type = bearer | refresh_token

datatype client_role = provider | consumer

type_synonym object_id = nat

record access_token =
  oid :: object_id
  tokenType :: token_type
  token :: string
  linkedToken :: "object_id option"
  expiresAt :: "int option"
  scope :: "string list"
  user :: "object_id option"
  client :: object_id
  clientRole :: client_role
  clientName :: "string option"

section \<open>The scope matcher \<open>isAuthorizedToDo\<close>\<close>

text \<open>
  The callback of \<open>this.scope.map\<close>: an entry whose first character is not \<open>/\<close> goes to
  \<open>new RegExp\<close> as it is; otherwise it is split on \<open>/\<close>, the last segment is the flags
  and the segments between the first and the last, joined by \<open>/\<close>, are the pattern.
\<close>

definition scope_regexp :: "string \<Rightarrow> error + regexp" where
  "scope_regexp x =
     (if (case x of [] \<Rightarrow> True | c # _ \<Rightarrow> c \<noteq> CHR ''/'') then RegExp x []
      else
        (let regex = split_on CHR ''/'' x;
             options = last regex;
             regex' = take (length regex - 1 - 1) (drop 1 regex)
         in RegExp (join CHR ''/'' regex') options))"

text \<open>
  \<open>Array.prototype.map\<close> with a callback that may throw: the elements are visited in
  order and the first throw ends the call.
\<close>

fun map_throw :: "('a \<Rightarrow> error + 'b) \<Rightarrow> 'a list \<Rightarrow> error + 'b list" where
  "map_throw f [] = Inr []"
| "map_throw f (x # xs) =
     (case f x of
        Inl e \<Rightarrow> Inl e
      | Inr y \<Rightarrow> (case map_throw f xs of Inl e \<Rightarrow> Inl e | Inr ys \<Rightarrow> Inr (y # ys)))"

fun test_loop :: "regexp list \<Rightarrow> string \<Rightarrow> bool" where
  "test_loop [] s = False"
| "test_loop (r # rs) s = (if regexp_test r s then True else test_loop rs s)"

definition isAuthorizedToDo :: "access_token \<Rightarrow> string \<Rightarrow> error + bool" where
  "isAuthorizedToDo this s =
     (case map_throw scope_regexp (scope this) of
        Inl e \<Rightarrow> Inl e
      | Inr regexes \<Rightarrow> Inr (test_loop regexes s))"


section \<open>The virtual \<open>formalScope\<close>\<close>

text \<open>
  For a provider token every entry goes through \<open>s.replace(new RegExp('$' + this.clientName), '')\<close>;
  a token whose \<open>clientName\<close> is not set concatenates the text \<open>undefined\<close>.
\<close>

definition formalScope :: "access_token \<Rightarrow> error + string list" where
  "formalScope this =
     (if clientRole this = provider then
        map_throw
          (\<lambda>s. case RegExp (''$'' @ (case clientName this of None \<Rightarrow> ''undefined'' | Some n \<Rightarrow> n)) [] of
                 Inl e \<Rightarrow> Inl e
               | Inr re \<Rightarrow> Inr (replace_empty re s))
          (scope this)
      else Inr (scope this))"

section \<open>Clients, users and the collaborators of the token model\<close>

record client_doc =
  client_oid :: object_id
  name :: string
  scope_of_client :: "string list"
  expireAccessTokenIn :: "int js_opt"
  expireRefreshTokenIn :: "int js_opt"
  redirectUri :: string
  tokenUri :: string
  clientId :: string
  clientSecret :: string

record user_doc =
  user_oid :: object_id
  scope_of_user :: "string list"

text \<open>The wire format \<open>IFormalAccessToken\<close> and the answer of the upstream token endpoint.\<close>

record formal_token =
  ft_access_token :: string
  ft_refresh_token :: "string option"
  ft_scope :: "string option"
  ft_expires_in :: "int option"
  ft_token_type :: string

record token_response =
  status :: nat
  json :: formal_token

text \<open>
  What the module imports and does not define: the \<open>Client\<close> and \<open>User\<close> collections
  (\<open>findById\<close> gives \<open>null\<close> as \<open>None\<close>), the clock, the two configured lifetimes, the
  function \<open>isAuthorizedToDo\<close> of the \<open>User\<close> module, the generator
  \<open>user.getAccessTokensForScope\<close> (the list of what it yields: a pair of a scope and the
  token found for it, if any), \<open>fetch\<close> and \<open>nanoid\<close>.
\<close>

record env =
  Client_findById :: "object_id \<Rightarrow> client_doc option"
  User_findById :: "object_id \<Rightarrow> user_doc option"
  now :: int
  config_expireTokenIn :: int
  config_expireRefreshTokenIn :: int
  User_isAuthorizedToDo :: "string list \<Rightarrow> string \<Rightarrow> bool"
  getAccessTokensForScope ::
    "user_doc \<Rightarrow> string list \<Rightarrow> (string \<times> access_token option) option list"
  fetch :: "string \<Rightarrow> (string \<times> string) list \<Rightarrow> token_response"
  nanoid :: string

section \<open>The collection of tokens\<close>

datatype event = Saved object_id | Removed object_id | DeletedMany "object_id list"

text \<open>
  The \<open>access_tokens\<close> collection, the supply of fresh \<open>ObjectId\<close>s (every
  \<open>new AccessToken\<close> takes one) and the writes made so far, oldest first.
\<close>

record db =
  docs :: "access_token list"
  nextId :: object_id
  log :: "event list"

definition findById :: "db \<Rightarrow> object_id \<Rightarrow> access_token option" where
  "findById d i = find (\<lambda>t. oid t = i) (docs d)"

definition new_ObjectId :: "db \<Rightarrow> object_id \<times> db" where
  "new_ObjectId d = (nextId d, d\<lparr>nextId := Suc (nextId d)\<rparr>)"

definition deleteMany :: "(access_token \<Rightarrow> bool) \<Rightarrow> db \<Rightarrow> db" where
  "deleteMany q d =
     d\<lparr>docs := filter (\<lambda>t. \<not> q t) (docs d),
       log := log d @ [DeletedMany (map oid (filter q (docs d)))]\<rparr>"

definition remove :: "access_token \<Rightarrow> db \<Rightarrow> db" where
  "remove this d =
     d\<lparr>docs := filter (\<lambda>t. oid t \<noteq> oid this) (docs d),
       log := log d @ [Removed (oid this)]\<rparr>"

text \<open>
  The TTL index on \<open>expiresAt\<close> with \<open>expireAfterSeconds: 0\<close>: a sweep at time \<open>t\<close> drops
  the documents whose \<open>expiresAt\<close> has passed; a document without \<open>expiresAt\<close> stays.
\<close>

definition expired :: "int \<Rightarrow> access_token \<Rightarrow> bool" where
  "expired t tok = (case expiresAt tok of None \<Rightarrow> False | Some e \<Rightarrow> e + 0 * 1000 < t)"

definition ttl_sweep :: "int \<Rightarrow> db \<Rightarrow> db" where
  "ttl_sweep t d = d\<lparr>docs := filter (\<lambda>tok. \<not> expired t tok) (docs d)\<rparr>"

section \<open>Scope partition\<close>

text \<open>The result pair is \<open>(unauthorizedScopes, validScopes)\<close>.\<close>

fun getValidInvalidScopes ::
  "env \<Rightarrow> string list \<Rightarrow> client_doc \<Rightarrow> user_doc option \<Rightarrow> error + (string list \<times> string list)" where
  "getValidInvalidScopes e [] c u = Inr ([], [])"
| "getValidInvalidScopes e (singleScope # scopes) c u =
     (if singleScope = [] then getValidInvalidScopes e scopes c u
      else
        (case u of
           None \<Rightarrow> Inl TypeError
         | Some usr \<Rightarrow>
             (case getValidInvalidScopes e scopes c u of
                Inl err \<Rightarrow> Inl err
              | Inr (unauthorizedScopes, validScopes) \<Rightarrow>
                  if User_isAuthorizedToDo e (scope_of_user usr) singleScope
                     \<or> User_isAuthorizedToDo e (scope_of_client c) singleScope
                  then Inr (unauthorizedScopes, singleScope # validScopes)
                  else Inr (singleScope # unauthorizedScopes, validScopes))))"

definition checkScopePermission ::
  "env \<Rightarrow> string list \<Rightarrow> client_doc \<Rightarrow> user_doc option \<Rightarrow> error + string list" where
  "checkScopePermission e scopes c u =
     (case getValidInvalidScopes e scopes c u of
        Inl err \<Rightarrow> Inl err
      | Inr (unauthorizedScopes, validScopes) \<Rightarrow>
          if length unauthorizedScopes \<noteq> 0 then Inl (NotAuthorizedToUseScopesError unauthorizedScopes)
          else Inr validScopes)"

section \<open>The \<open>save\<close> hooks\<close>

text \<open>The loop over \<open>user.getAccessTokensForScope(unauthorizedScopes)\<close>.\<close>

fun token_loop :: "(string \<times> access_token option) option list \<Rightarrow> error + unit" where
  "token_loop [] = Inr ()"
| "token_loop (None # rest) = Inl (CouldNotFindTokenForScopeError None)"
| "token_loop (Some (s, None) # rest) = Inl (CouldNotFindTokenForScopeError (Some s))"
| "token_loop (Some (s, Some t) # rest) = token_loop rest"

text \<open>\<open>x + y\<close> where \<open>y\<close> is the client's value if it is not \<open>undefined\<close> (\<open>null\<close> adds 0).\<close>

definition defined_or :: "int js_opt \<Rightarrow> int \<Rightarrow> int" where
  "defined_or v dflt = (case v of Undefined \<Rightarrow> dflt | Null \<Rightarrow> 0 | Val n \<Rightarrow> n)"

text \<open>
  The \<open>pre('save')\<close> hook. Its result is the value the hook function returns (a number
  at the two \<open>return\<close>s of the expiry branch, nothing otherwise) and the document as the
  hook leaves it; a throw aborts the save.
\<close>

definition pre_save :: "env \<Rightarrow> access_token \<Rightarrow> error + (int option \<times> access_token)" where
  "pre_save e this =
     (case Client_findById e (client this) of
        None \<Rightarrow> Inl TypeError
      | Some c \<Rightarrow>
          (let this1 = this\<lparr>clientName := Some (name c)\<rparr>;
               this2 = (if clientRole this1 = provider \<and> length (scope this1) \<noteq> 0
                        then this1\<lparr>scope := map (\<lambda>s. name c @ ''.'' @ s) (scope this1)\<rparr>
                        else this1)
           in if tokenType this2 = bearer \<and> expireAccessTokenIn c \<noteq> Null then
                Inr (Some (now e + defined_or (expireAccessTokenIn c) (config_expireTokenIn e)), this2)
              else if tokenType this2 = refresh_token \<and> expireRefreshTokenIn c \<noteq> Null then
                Inr (Some (now e + defined_or (expireRefreshTokenIn c) (config_expireRefreshTokenIn e)), this2)
              else
                (case user this2 of
                   None \<Rightarrow> Inr (None, this2)
                 | Some uid \<Rightarrow>
                     (let u = User_findById e uid
                      in if clientRole this2 = consumer then
                           (case getValidInvalidScopes e (scope this2) c u of
                              Inl err \<Rightarrow> Inl err
                            | Inr (unauthorizedScopes, validScopes) \<Rightarrow>
                                (case u of
                                   None \<Rightarrow> Inl TypeError
                                 | Some usr \<Rightarrow>
                                     (case token_loop (getAccessTokensForScope e usr unauthorizedScopes) of
                                        Inl err \<Rightarrow> Inl err
                                      | Inr _ \<Rightarrow> Inr (None, this2))))
                         else Inr (None, this2)))))"

text \<open>The \<open>post('save')\<close> hook.\<close>

definition post_save :: "access_token \<Rightarrow> db \<Rightarrow> db" where
  "post_save doc d =
     (if tokenType doc = bearer \<and> linkedToken doc \<noteq> None then
        deleteMany (\<lambda>t. tokenType t = bearer \<and> linkedToken t = linkedToken doc \<and> oid t \<noteq> oid doc) d
      else d)"

text \<open>
  \<open>doc.save()\<close> of a new document: the pre-save hook, the insert (refused when the
  \<open>_id\<close> is taken), the post-save hook. The result is the document as saved.
\<close>

definition save :: "env \<Rightarrow> access_token \<Rightarrow> db \<Rightarrow> (error + access_token) \<times> db" where
  "save e doc d =
     (case pre_save e doc of
        Inl err \<Rightarrow> (Inl err, d)
      | Inr (ret, doc') \<Rightarrow>
          if oid doc' \<in> set (map oid (docs d)) then (Inl DuplicateKeyError, d)
          else (Inr doc',
                post_save doc' (d\<lparr>docs := docs d @ [doc'], log := log d @ [Saved (oid doc')]\<rparr>)))"

section \<open>Issuing and refreshing\<close>

definition scope_list :: "string option \<Rightarrow> string list" where
  "scope_list sc = (case sc of None \<Rightarrow> [] | Some str \<Rightarrow> if str = [] then [] else split_on CHR '' '' str)"

definition fromFormalToken ::
  "env \<Rightarrow> formal_token \<Rightarrow> user_doc option \<Rightarrow> client_doc \<Rightarrow> client_role \<Rightarrow> db
     \<Rightarrow> (access_token \<times> access_token option) \<times> db" where
  "fromFormalToken e formalToken u c role d =
     (let (aid, d1) = new_ObjectId d;
          accessToken =
            \<lparr>oid = aid, tokenType = bearer, token = ft_access_token formalToken,
             linkedToken = None,
             expiresAt = (case ft_expires_in formalToken of
                            None \<Rightarrow> None
                          | Some n \<Rightarrow> if n = 0 then None else Some (now e + n * 1000)),
             scope = scope_list (ft_scope formalToken),
             user = map_option user_oid u, client = client_oid c,
             clientRole = role, clientName = Some (name c)\<rparr>
      in case ft_refresh_token formalToken of
           None \<Rightarrow> ((accessToken, None), d1)
         | Some r \<Rightarrow>
             if r = [] then ((accessToken, None), d1)
             else
               (let (rid, d2) = new_ObjectId d1;
                    refreshToken =
                      \<lparr>oid = rid, tokenType = refresh_token, token = r,
                       linkedToken = Some (oid accessToken), expiresAt = None,
                       scope = scope_list (ft_scope formalToken),
                       user = map_option user_oid u, client = client_oid c,
                       clientRole = role, clientName = Some (name c)\<rparr>
                in ((accessToken\<lparr>linkedToken := Some (oid refreshToken)\<rparr>, Some refreshToken), d2)))"

text \<open>
  The form fields \<open>q\<close> of the refresh grant; \<open>fetch\<close> gets the client's token
  endpoint and these fields (as the query of the address and as the body of the POST).
\<close>

definition refresh_grant :: "access_token \<Rightarrow> client_doc \<Rightarrow> (string \<times> string) list" where
  "refresh_grant refreshToken c =
     [(''grant_type'', ''refresh_token''),
      (''refresh_token'', token refreshToken),
      (''redirect_uri'', redirectUri c),
      (''client_id'', clientId c),
      (''client_secret'', clientSecret c)]"

text \<open>
  \<open>accessTokenFromRefresh\<close>. The result is what the call resolves to (\<open>None\<close> is
  \<open>null\<close>) or the throw that rejects it, with the collection as the call leaves it. The
  first \<open>accessToken.save()\<close> of the provider branch is not awaited: its rejection is not
  a rejection of the call (the document returned is then as the pre-save hook left it), and
  the model lets the save run to its end before the next statement.
\<close>

definition accessTokenFromRefresh ::
  "env \<Rightarrow> access_token \<Rightarrow> db \<Rightarrow> (error + access_token option) \<times> db" where
  "accessTokenFromRefresh e self d =
     (let refreshToken =
            (if tokenType self = refresh_token then Some self
             else (case linkedToken self of None \<Rightarrow> None | Some l \<Rightarrow> findById d l))
      in case refreshToken of
           None \<Rightarrow> (Inr None, d)
         | Some rt \<Rightarrow>
             if clientRole self = provider then
               (case Client_findById e (client self) of
                  None \<Rightarrow> (Inr None, d)
                | Some c \<Rightarrow>
                    (let q = refresh_grant rt c;
                         tokenResp = fetch e (tokenUri c) q
                     in if status tokenResp \<noteq> 200 then (Inr None, d)
                        else
                          (let u = (case user self of None \<Rightarrow> None | Some uid \<Rightarrow> User_findById e uid);
                               ((accessToken, newRefreshToken), d1) =
                                 fromFormalToken e (json tokenResp) u c provider d;
                               (accessToken', d2) =
                                 (case save e accessToken d1 of
                                    (Inl err, d') \<Rightarrow>
                                      ((case pre_save e accessToken of
                                          Inl _ \<Rightarrow> accessToken
                                        | Inr (_, a) \<Rightarrow> a), d')
                                  | (Inr a, d') \<Rightarrow> (a, d'))
                           in case newRefreshToken of
                                None \<Rightarrow> (Inr (Some accessToken'), d2)
                              | Some nrt \<Rightarrow>
                                  (let d3 = remove self d2
                                   in case save e nrt d3 of
                                        (Inl err, d4) \<Rightarrow> (Inl err, d4)
                                      | (Inr _, d4) \<Rightarrow> (Inr (Some accessToken'), d4)))))
             else if clientRole self = consumer then
               (let (aid, d1) = new_ObjectId d;
                    accessToken =
                      \<lparr>oid = aid, tokenType = bearer, token = nanoid e,
                       linkedToken = Some (oid self),
                       expiresAt = Some (now e + config_expireTokenIn e),
                       scope = scope self, user = user self, client = client self,
                       clientRole = consumer, clientName = clientName self\<rparr>
                in case save e accessToken d1 of
                     (Inl err, d2) \<Rightarrow> (Inl err, d2)
                   | (Inr a, d2) \<Rightarrow> (Inr (Some a), d2))
             else (Inr None, d))"

section \<open>The HTTP resolver middleware\<close>

record scope_context =
  currentScope :: "string option"
  currentScopeAccessToken :: "access_token option"
  context_accessToken :: "access_token option"
  context_user :: "user_doc option"

text \<open>
  What the middleware reads of an Express request: \<open>x_forwarded_proto\<close> is the header
  of that name, \<open>host\<close> is \<open>req.get('host')\<close>.
\<close>

record request =
  originalUrl :: string
  x_forwarded_proto :: "string option"
  protocol :: string
  host :: "string option"
  req_method :: string
  body :: string
  scopeContext :: "scope_context option"

text \<open>A resolved location: an object with properties, hence never empty for \<open>_.isEmpty\<close>.\<close>

record location =
  href :: string
  auth :: "string option"
  driver :: string

record http_response =
  http_method :: "string option"
  http_status :: nat
  http_href :: "string option"
  http_headers :: "(string \<times> string) list option"
  http_body :: "string option"

text \<open>What the middleware has done to the Express response.\<close>

record response =
  res_status :: "nat option"
  res_headers :: "(string \<times> string) list"
  res_body :: "string option"
  res_ended :: bool

text \<open>
  A driver instance: \<open>get\<close> and \<open>head\<close> are abstract members of \<open>Driver\<close>, the other
  capabilities may be missing. Each gets the location with the request in its
  \<open>httpContext\<close>.
\<close>

record driver_instance =
  driver_get :: "request \<Rightarrow> location \<Rightarrow> error + http_response option"
  driver_head :: "request \<Rightarrow> location \<Rightarrow> error + http_response option"
  driver_put :: "(request \<Rightarrow> location \<Rightarrow> string \<Rightarrow> error + http_response option) option"
  driver_delete :: "(request \<Rightarrow> location \<Rightarrow> error + http_response option) option"
  driver_proxy :: "(request \<Rightarrow> location \<Rightarrow> error + http_response option) option"

text \<open>
  The collaborators of the middleware: \<open>resolve\<close> of the \<open>Resolver\<close> module (\<open>None\<close>
  when no resolver claims the locator) and \<open>location.getDriver()\<close>.
\<close>

record web_env =
  resolve :: "string \<Rightarrow> error + location option"
  getDriver :: "location \<Rightarrow> driver_instance option"

text \<open>
  \<open>getHttpResponse\<close>. The pair looked up for a scope other than the current one is not
  used afterwards; the lookup is kept as the member access on \<open>scopeContext.user\<close> that
  throws when there is no user.
\<close>

definition getHttpResponse :: "web_env \<Rightarrow> request \<Rightarrow> location \<Rightarrow> error + http_response option" where
  "getHttpResponse w req loc =
     (case scopeContext req of
        None \<Rightarrow> Inl TypeError
      | Some ctx \<Rightarrow>
          (let sc = (case auth loc of
                       None \<Rightarrow> ''rpc.getResponse''
                     | Some a \<Rightarrow> if a = [] then ''rpc.getResponse'' else a)
           in if Some sc \<noteq> currentScope ctx \<and> context_user ctx = None then Inl TypeError
              else
                (case getDriver w loc of
                   None \<Rightarrow> Inl TypeError
                 | Some drv \<Rightarrow>
                     if req_method req = ''GET'' then driver_get drv req loc
                     else if req_method req = ''HEAD'' then driver_head drv req loc
                     else if req_method req = ''PUT'' then
                       (case driver_put drv of None \<Rightarrow> Inl TypeError | Some f \<Rightarrow> f req loc (body req))
                     else if req_method req = ''DELETE'' then
                       (case driver_delete drv of None \<Rightarrow> Inl TypeError | Some f \<Rightarrow> f req loc)
                     else if req_method req = ''CONNECT'' then
                       (case driver_proxy drv of None \<Rightarrow> Inl TypeError | Some f \<Rightarrow> f req loc)
                     else
                       Inr (Some \<lparr>http_method = Some (req_method req), http_status = 405,
                                  http_href = Some (href loc), http_headers = None,
                                  http_body = None\<rparr>))))"

text \<open>
  What the function given to \<open>asyncMiddleware\<close> returns: \<open>true\<close> or nothing. The wrapper
  is in the module \<open>./Common\<close>; \<open>true\<close> is the result for a request the middleware leaves
  to the next handler.
\<close>

datatype returned = ReturnedTrue | ReturnedUndefined

definition request_href :: "request \<Rightarrow> string" where
  "request_href req =
     (case x_forwarded_proto req of
        None \<Rightarrow> protocol req
      | Some p \<Rightarrow> if p = [] then protocol req else p)
     @ ''://'' @ (case host req of None \<Rightarrow> ''undefined'' | Some h \<Rightarrow> h) @ originalUrl req"

definition write_response :: "http_response \<Rightarrow> response \<Rightarrow> response" where
  "write_response r res =
     (let res1 = res\<lparr>res_status := Some (http_status r)\<rparr>;
          res2 = (case http_headers r of
                    None \<Rightarrow> res1
                  | Some hs \<Rightarrow> fold (\<lambda>(k, v) acc. acc\<lparr>res_headers := res_headers acc @ [(k, v)]\<rparr>) hs res1);
          res3 = (case http_body r of
                    None \<Rightarrow> res2
                  | Some b \<Rightarrow> if b = [] then res2 else res2\<lparr>res_body := Some b\<rparr>)
      in res3\<lparr>res_ended := True\<rparr>)"

definition ResolverMiddleware :: "web_env \<Rightarrow> request \<Rightarrow> response \<Rightarrow> (error + returned) \<times> response" where
  "ResolverMiddleware w req res =
     (if take 5 (originalUrl req) = ''/auth'' then (Inr ReturnedTrue, res)
      else
        (case resolve w (request_href req) of
           Inl err \<Rightarrow> (Inl err, res)
         | Inr None \<Rightarrow> (Inr ReturnedTrue, res)
         | Inr (Some loc) \<Rightarrow>
             (case getHttpResponse w req loc of
                Inl err \<Rightarrow> (Inl err, res)
              | Inr None \<Rightarrow> (Inr ReturnedUndefined, res)
              | Inr (Some r) \<Rightarrow> (Inr ReturnedUndefined, write_response r res))))"

section \<open>Sample data\<close>

text \<open>
  A client named \<open>svc\<close> that sets neither lifetime, a user, and collaborators for them:
  the clock reads 1000, the configured lifetimes are one hour and one day, the user holds no
  token for any scope asked of the generator, and the upstream endpoint answers 200 with an
  access token and no refresh token.
\<close>

definition svc :: client_doc where
  "svc = \<lparr>client_oid = 7, name = ''svc'', scope_of_client = [],
          expireAccessTokenIn = Undefined, expireRefreshTokenIn = Undefined,
          redirectUri = ''https://svc/cb'', tokenUri = ''https://up/token'',
          clientId = ''cid'', clientSecret = ''secret''\<rparr>"

definition alice :: user_doc where
  "alice = \<lparr>user_oid = 5, scope_of_user = []\<rparr>"

definition upstream_plain :: token_response where
  "upstream_plain =
     \<lparr>status = 200,
      json = \<lparr>ft_access_token = ''up-access'', ft_refresh_token = None,
              ft_scope = Some ''read'', ft_expires_in = Some 3600,
              ft_token_type = ''bearer''\<rparr>\<rparr>"

definition upstream_rotating :: token_response where
  "upstream_rotating =
     \<lparr>status = 200,
      json = \<lparr>ft_access_token = ''up-access'', ft_refresh_token = Some ''up-refresh'',
              ft_scope = Some ''read'', ft_expires_in = Some 3600,
              ft_token_type = ''bearer''\<rparr>\<rparr>"

definition world :: env where
  "world =
     \<lparr>Client_findById = (\<lambda>i. if i = 7 then Some svc else None),
      User_findById = (\<lambda>i. if i = 5 then Some alice else None),
      now = 1000,
      config_expireTokenIn = 3600000,
      config_expireRefreshTokenIn = 86400000,
      User_isAuthorizedToDo = (\<lambda>granted s. s \<in> set granted),
      getAccessTokensForScope = (\<lambda>u scopes. map (\<lambda>s. Some (s, None)) scopes),
      fetch = (\<lambda>uri q. upstream_plain),
      nanoid = ''n4n0''\<rparr>"

text \<open>A token of \<open>svc\<close> for \<open>alice\<close>, to be varied by record update.\<close>

definition tok :: access_token where
  "tok = \<lparr>oid = 1, tokenType = bearer, token = ''t'', linkedToken = None,
          expiresAt = None, scope = [''read''], user = Some 5, client = 7,
          clientRole = consumer, clientName = None\<rparr>"

definition refresh_tok :: access_token where
  "refresh_tok = tok\<lparr>oid := 2, tokenType := refresh_token, token := ''r'',
                      linkedToken := Some 1, clientName := Some ''svc''\<rparr>"

definition bearer_tok :: access_token where
  "bearer_tok = tok\<lparr>linkedToken := Some 2, clientName := Some ''svc''\<rparr>"

definition store0 :: db where
  "store0 = \<lparr>docs = [bearer_tok, refresh_tok], nextId = 10, log = []\<rparr>"

text \<open>
  A gateway with one resolvable locator, served by a driver that answers 200 to \<open>GET\<close> and
  \<open>HEAD\<close>, and a \<open>GET\<close> request for a path on \<open>https://example.org\<close>.
\<close>

definition echo_driver :: driver_instance where
  "echo_driver =
     \<lparr>driver_get = (\<lambda>req loc. Inr (Some \<lparr>http_method = None, http_status = 200,
                                            http_href = Some (href loc), http_headers = None,
                                            http_body = Some ''ok''\<rparr>)),
      driver_head = (\<lambda>req loc. Inr (Some \<lparr>http_method = None, http_status = 200,
                                             http_href = Some (href loc), http_headers = None,
                                             http_body = None\<rparr>)),
      driver_put = None, driver_delete = None, driver_proxy = None\<rparr>"

definition gateway :: web_env where
  "gateway =
     \<lparr>resolve = (\<lambda>h. if h = ''https://example.org/files/a''
                      then Inr (Some \<lparr>href = h, auth = None, driver = ''echo''\<rparr>)
                      else Inr None),
      getDriver = (\<lambda>loc. Some echo_driver)\<rparr>"

definition get_request :: "string \<Rightarrow> request" where
  "get_request url =
     \<lparr>originalUrl = url, x_forwarded_proto = None, protocol = ''https'',
      host = Some ''example.org'', req_method = ''GET'', body = [],
      scopeContext = Some \<lparr>currentScope = Some ''rpc.getResponse'',
                            currentScopeAccessToken = None, context_accessToken = None,
                            context_user = None\<rparr>\<rparr>"

definition fresh_response :: response where
  "fresh_response = \<lparr>res_status = None, res_headers = [], res_body = None, res_ended = False\<rparr>"




section \<open>Facts about the regular expression fragment\<close>

lemma parse_pattern_ordinary:
  "\<forall>c \<in> set x. c \<notin> set syntax_chars \<Longrightarrow> parse_pattern x = Inr (map Lit x)"
  by (induction x) (auto simp: syntax_chars_def)






lemma search_from_never:
  "\<forall>prev s. match_here re (atoms re) prev s = None \<Longrightarrow> search_from re prev before s = None"
  by (induction s arbitrary: prev before) auto

lemma eol_literal_never:
  "\<not> multiline re \<Longrightarrow> match_here re (Eol # Lit a # as) prev s = None"
  by (cases s) auto

section \<open>Facts about the string helpers and \<open>map\<close>\<close>








lemma map_throw_Inr_id: "map_throw (\<lambda>s. Inr (g s)) xs = Inr (map g xs)"
  by (induction xs) auto

section \<open>Facts about the scope matcher\<close>






lemmas regexp_eval =
  isAuthorizedToDo_def scope_regexp_def RegExp_def regexp_test_def canonicalize_def
  is_line_terminator_def syntax_chars_def tok_def




section \<open>The scope matcher: claims C3, C10 and C8\<close>






text \<open>
  Claim C8, as the code has it. The scope check reads the scope list of the token and
  nothing else: two tokens with the same scope list get the same answer, whatever their
  \<open>expiresAt\<close>. An expired token leaves the authorization checks only when the TTL sweep
  drops its record: after a sweep the collection holds exactly the records not yet expired.
\<close>

theorem C8_check_ignores_expiry:
  "(scope t = scope t' \<longrightarrow> isAuthorizedToDo t s = isAuthorizedToDo t' s)
   \<and> set (docs (ttl_sweep time d)) = {x \<in> set (docs d). \<not> expired time x}"
  by (auto simp: isAuthorizedToDo_def ttl_sweep_def)

theorem C8_check_ignores_expiry_witness:
  "isAuthorizedToDo (tok\<lparr>expiresAt := Some 0\<rparr>) ''read'' = isAuthorizedToDo tok ''read''
   \<and> set (docs (ttl_sweep 1000 (store0\<lparr>docs := [tok\<lparr>expiresAt := Some 0\<rparr>]\<rparr>))) = {}"
proof -
  let ?d = "store0\<lparr>docs := [tok\<lparr>expiresAt := Some 0\<rparr>]\<rparr>"
  note inst = C8_check_ignores_expiry[of "tok\<lparr>expiresAt := Some 0\<rparr>" tok "''read''" 1000 ?d]
  have same: "scope (tok\<lparr>expiresAt := Some 0\<rparr>) = scope tok"
    by simp
  from inst same
  have a: "isAuthorizedToDo (tok\<lparr>expiresAt := Some 0\<rparr>) ''read'' = isAuthorizedToDo tok ''read''"
    by blast
  from inst have b: "set (docs (ttl_sweep 1000 ?d)) = {x \<in> set (docs ?d). \<not> expired 1000 x}"
    by (rule conjunct2)
  have "expired 1000 (tok\<lparr>expiresAt := Some 0\<rparr>)"
    by (simp add: expired_def)
  then have gone: "{x \<in> set (docs ?d). \<not> expired 1000 x} = {}"
    by auto
  show ?thesis using a b gone by (simp only: simp_thms)
qed

text \<open>
  The claim as stated fails: at time 1000 a token that expired at time 0 and is still in the
  collection is authorized for its scope.
\<close>

theorem C8_expired_token_authorized_counterexample:
  "expired 1000 (tok\<lparr>expiresAt := Some 0\<rparr>)
   \<and> isAuthorizedToDo (tok\<lparr>expiresAt := Some 0\<rparr>) ''read'' = Inr True"
  by (simp add: expired_def regexp_eval)

section \<open>The pre-save hook: claims C1, C2 and C7\<close>

lemma pre_save_keeps:
  assumes "pre_save e this = Inr (r, this')"
  shows "oid this' = oid this" and "tokenType this' = tokenType this"
    and "linkedToken this' = linkedToken this" and "expiresAt this' = expiresAt this"
    and "clientRole this' = clientRole this"
  using assms
  by (auto simp: pre_save_def Let_def split: option.splits if_splits sum.splits prod.splits)

lemma pre_save_bearer:
  assumes "Client_findById e (client this) = Some c"
    and "tokenType this = bearer" and "expireAccessTokenIn c \<noteq> Null"
  shows "\<exists>this'. pre_save e this =
           Inr (Some (now e + defined_or (expireAccessTokenIn c) (config_expireTokenIn e)), this')"
  using assms by (simp add: pre_save_def Let_def)

lemma pre_save_refresh:
  assumes "Client_findById e (client this) = Some c"
    and "tokenType this = refresh_token" and "expireRefreshTokenIn c \<noteq> Null"
  shows "\<exists>this'. pre_save e this =
           Inr (Some (now e + defined_or (expireRefreshTokenIn c) (config_expireRefreshTokenIn e)), this')"
  using assms by (simp add: pre_save_def Let_def)

lemma defined_or_case:
  "v \<noteq> Null \<Longrightarrow> defined_or v dflt = (case v of Val n \<Rightarrow> n | _ \<Rightarrow> dflt)"
  by (cases v) (simp_all add: defined_or_def)

lemma pre_save_sample: "pre_save world tok = Inr (Some 3601000, tok\<lparr>clientName := Some ''svc''\<rparr>)"
  by (simp add: pre_save_def world_def tok_def svc_def defined_or_def)

text \<open>
  Claim C1 on the code. The hook computes the expiry and returns it: for a bearer token of
  a client whose \<open>expireAccessTokenIn\<close> is not \<open>null\<close> the value returned is the clock
  plus the client's lifetime, or plus the configured one when the client sets none, and for
  a refresh token likewise. The document the hook leaves behind has the \<open>expiresAt\<close> it
  came with, in every case.
\<close>

theorem C1_expiry_returned_not_stored:
  assumes "pre_save e this = Inr (r, this')" and "Client_findById e (client this) = Some c"
  shows "expiresAt this' = expiresAt this
         \<and> (tokenType this = bearer \<and> expireAccessTokenIn c \<noteq> Null \<longrightarrow>
              r = Some (now e + (case expireAccessTokenIn c of
                                   Val n \<Rightarrow> n | _ \<Rightarrow> config_expireTokenIn e)))
         \<and> (tokenType this = refresh_token \<and> expireRefreshTokenIn c \<noteq> Null \<longrightarrow>
              r = Some (now e + (case expireRefreshTokenIn c of
                                   Val n \<Rightarrow> n | _ \<Rightarrow> config_expireRefreshTokenIn e)))"
proof (intro conjI impI)
  show "expiresAt this' = expiresAt this"
    using assms(1) by (rule pre_save_keeps)
  show "r = Some (now e + (case expireAccessTokenIn c of Val n \<Rightarrow> n | _ \<Rightarrow> config_expireTokenIn e))"
    if "tokenType this = bearer \<and> expireAccessTokenIn c \<noteq> Null"
    using pre_save_bearer[OF assms(2)] that assms(1) by (auto simp: defined_or_case)
  show "r = Some (now e + (case expireRefreshTokenIn c of Val n \<Rightarrow> n | _ \<Rightarrow> config_expireRefreshTokenIn e))"
    if "tokenType this = refresh_token \<and> expireRefreshTokenIn c \<noteq> Null"
    using pre_save_refresh[OF assms(2)] that assms(1) by (auto simp: defined_or_case)
qed

theorem C1_expiry_returned_not_stored_witness:
  "pre_save world tok = Inr (Some 3601000, tok\<lparr>clientName := Some ''svc''\<rparr>)
   \<and> expiresAt (tok\<lparr>clientName := Some ''svc''\<rparr>) = None
   \<and> Some (3601000::int) = Some (now world + config_expireTokenIn world)"
proof -
  have c: "Client_findById world (client tok) = Some svc"
    by (simp add: world_def tok_def)
  note inst = C1_expiry_returned_not_stored[OF pre_save_sample c]
  have b: "tokenType tok = bearer \<and> expireAccessTokenIn svc \<noteq> Null"
    by (simp add: tok_def svc_def)
  from inst have "expiresAt (tok\<lparr>clientName := Some ''svc''\<rparr>) = expiresAt tok"
    by (rule conjunct1)
  then have stored: "expiresAt (tok\<lparr>clientName := Some ''svc''\<rparr>) = None"
    by (simp add: tok_def)
  from inst b have "Some (3601000::int) = Some (now world + (case expireAccessTokenIn svc of
      Val n \<Rightarrow> n | _ \<Rightarrow> config_expireTokenIn world))"
    by blast
  then have returned: "Some (3601000::int) = Some (now world + config_expireTokenIn world)"
    by (simp add: svc_def)
  from pre_save_sample stored returned show ?thesis by blast
qed

lemma dollar_name_never_matches:
  assumes "n \<noteq> []" and "\<forall>c \<in> set n. c \<notin> set syntax_chars"
  shows "\<exists>re. RegExp (''$'' @ n) [] = Inr re \<and> (\<forall>s. replace_empty re s = s)"
proof -
  obtain a as where n: "n = a # as" using assms(1) by (cases n) auto
  let ?re = "\<lparr>atoms = Eol # map Lit n, global = False, ignoreCase = False, multiline = False,
               dotAll = False, sticky = False\<rparr>"
  have re: "RegExp (''$'' @ n) [] = Inr ?re"
    using parse_pattern_ordinary[OF assms(2)] by (simp add: RegExp_def)
  have "match_here ?re (atoms ?re) prev s = None" for prev s
    using eol_literal_never[of ?re a "map Lit as" prev s] by (simp add: n)
  then have "search_from ?re None [] s = None" for s
    by (intro search_from_never) simp
  then have "replace_empty ?re s = s" for s
    by (simp add: replace_empty_def)
  with re show ?thesis by blast
qed

lemma formalScope_provider_verbatim:
  assumes "clientRole this = provider" and "clientName this = Some n"
    and "n \<noteq> []" and "\<forall>c \<in> set n. c \<notin> set syntax_chars"
  shows "formalScope this = Inr (scope this)"
proof -
  obtain re where re: "RegExp (''$'' @ n) [] = Inr re" and id: "\<And>s. replace_empty re s = s"
    using dollar_name_never_matches[OF assms(3,4)] by blast
  have "formalScope this = map_throw (\<lambda>s. Inr (replace_empty re s)) (scope this)"
    using assms(1,2) re by (simp add: formalScope_def)
  also have "\<dots> = Inr (map (replace_empty re) (scope this))"
    by (rule map_throw_Inr_id)
  also have "map (replace_empty re) (scope this) = scope this"
    by (induction "scope this") (simp_all add: id map_idI)
  finally show ?thesis .
qed

text \<open>
  Claim C2 on the code. Saving a provider token under a client whose name is a non-empty
  word of ordinary characters stores every scope with the prefix \<open>name.\<close>; reading
  \<open>formalScope\<close> of the saved token gives the stored list back with the prefix still on
  it, since the expression \<open>$name\<close> matches nowhere. For a consumer token the scope is
  stored and read as it is.
\<close>

theorem C2_prefix_stored_and_read_back:
  assumes "pre_save e this = Inr (r, this')" and "Client_findById e (client this) = Some c"
    and "name c \<noteq> []" and "\<forall>ch \<in> set (name c). ch \<notin> set syntax_chars"
  shows "(clientRole this = provider \<longrightarrow>
            scope this' = map (\<lambda>s. name c @ ''.'' @ s) (scope this)
            \<and> formalScope this' = Inr (map (\<lambda>s. name c @ ''.'' @ s) (scope this)))
         \<and> (clientRole this = consumer \<longrightarrow>
            scope this' = scope this \<and> formalScope this' = Inr (scope this))"
proof (intro conjI impI)
  have cn: "clientName this' = Some (name c)"
    using assms(1,2)
    by (auto simp: pre_save_def Let_def split: option.splits if_splits sum.splits prod.splits)
  have role: "clientRole this' = clientRole this"
    using assms(1) by (rule pre_save_keeps)
  show stored: "scope this' = map (\<lambda>s. name c @ ''.'' @ s) (scope this)" if "clientRole this = provider"
    using assms(1,2) that
    by (cases "scope this")
      (auto simp: pre_save_def Let_def split: option.splits if_splits sum.splits prod.splits)
  show "formalScope this' = Inr (map (\<lambda>s. name c @ ''.'' @ s) (scope this))" if "clientRole this = provider"
    using formalScope_provider_verbatim[OF _ cn assms(3,4)] role that stored[OF that] by simp
  show kept: "scope this' = scope this" if "clientRole this = consumer"
    using assms(1,2) that
    by (auto simp: pre_save_def Let_def split: option.splits if_splits sum.splits prod.splits)
  show "formalScope this' = Inr (scope this)" if "clientRole this = consumer"
    using role that kept[OF that] by (simp add: formalScope_def)
qed

lemma pre_save_provider_sample:
  "pre_save world (tok\<lparr>clientRole := provider\<rparr>)
     = Inr (Some 3601000, tok\<lparr>clientRole := provider, clientName := Some ''svc'', scope := [''svc.read'']\<rparr>)"
  by (simp add: pre_save_def world_def tok_def svc_def defined_or_def)

theorem C2_prefix_stored_and_read_back_witness:
  "scope (tok\<lparr>clientRole := provider\<rparr>) = [''read'']
   \<and> pre_save world (tok\<lparr>clientRole := provider\<rparr>)
       = Inr (Some 3601000, tok\<lparr>clientRole := provider, clientName := Some ''svc'', scope := [''svc.read'']\<rparr>)
   \<and> scope (tok\<lparr>clientRole := provider, clientName := Some ''svc'', scope := [''svc.read'']\<rparr>) = [''svc.read'']
   \<and> formalScope (tok\<lparr>clientRole := provider, clientName := Some ''svc'', scope := [''svc.read'']\<rparr>)
       = Inr [''svc.read'']"
proof -
  have c: "Client_findById world (client (tok\<lparr>clientRole := provider\<rparr>)) = Some svc"
    by (simp add: world_def tok_def)
  have n: "name svc \<noteq> []" by (simp add: svc_def)
  have o: "\<forall>ch \<in> set (name svc). ch \<notin> set syntax_chars" by (simp add: svc_def syntax_chars_def)
  have p: "clientRole (tok\<lparr>clientRole := provider\<rparr>) = provider" by simp
  from C2_prefix_stored_and_read_back[OF pre_save_provider_sample c n o] p
  have "formalScope (tok\<lparr>clientRole := provider, clientName := Some ''svc'', scope := [''svc.read'']\<rparr>)
          = Inr (map (\<lambda>s. name svc @ ''.'' @ s) (scope (tok\<lparr>clientRole := provider\<rparr>)))"
    by blast
  then show ?thesis using pre_save_provider_sample by (simp add: svc_def tok_def)
qed

text \<open>
  Claim C7 on the code. When the client does not set the lifetime of the token's type to
  \<open>null\<close>, the hook returns at the expiry computation: it does not look at the user's
  tokens and the save goes on, whatever the generator of the user's tokens would yield.
\<close>

theorem C7_scope_check_not_reached:
  assumes "Client_findById e (client this) = Some c"
    and "(tokenType this = bearer \<and> expireAccessTokenIn c \<noteq> Null)
         \<or> (tokenType this = refresh_token \<and> expireRefreshTokenIn c \<noteq> Null)"
  shows "\<exists>r this'. pre_save e this = Inr (r, this')
         \<and> pre_save (e\<lparr>getAccessTokensForScope := g, User_findById := u\<rparr>) this = Inr (r, this')"
  using assms by (auto simp: pre_save_def Let_def)

theorem C7_scope_check_not_reached_witness:
  "clientRole (tok\<lparr>scope := [''billing.write'']\<rparr>) = consumer
   \<and> user (tok\<lparr>scope := [''billing.write'']\<rparr>) = Some 5
   \<and> getValidInvalidScopes world [''billing.write''] svc (Some alice) = Inr ([''billing.write''], [])
   \<and> token_loop (getAccessTokensForScope world alice [''billing.write''])
       = Inl (CouldNotFindTokenForScopeError (Some ''billing.write''))
   \<and> (\<exists>r this'. pre_save world (tok\<lparr>scope := [''billing.write'']\<rparr>) = Inr (r, this'))
   \<and> pre_save (world\<lparr>Client_findById := (\<lambda>i. Some (svc\<lparr>expireAccessTokenIn := Null\<rparr>))\<rparr>)
        (tok\<lparr>scope := [''billing.write'']\<rparr>)
       = Inl (CouldNotFindTokenForScopeError (Some ''billing.write''))"
proof -
  have reached: "pre_save (world\<lparr>Client_findById := (\<lambda>i. Some (svc\<lparr>expireAccessTokenIn := Null\<rparr>))\<rparr>)
        (tok\<lparr>scope := [''billing.write'']\<rparr>)
       = Inl (CouldNotFindTokenForScopeError (Some ''billing.write''))"
    by (simp add: pre_save_def world_def tok_def svc_def alice_def)
  have c: "Client_findById world (client (tok\<lparr>scope := [''billing.write'']\<rparr>)) = Some svc"
    by (simp add: world_def tok_def)
  have b: "(tokenType (tok\<lparr>scope := [''billing.write'']\<rparr>) = bearer \<and> expireAccessTokenIn svc \<noteq> Null)
         \<or> (tokenType (tok\<lparr>scope := [''billing.write'']\<rparr>) = refresh_token \<and> expireRefreshTokenIn svc \<noteq> Null)"
    by (simp add: tok_def svc_def)
  from C7_scope_check_not_reached[OF c b]
  have saved: "\<exists>r this'. pre_save world (tok\<lparr>scope := [''billing.write'']\<rparr>) = Inr (r, this')"
    by blast
  have role: "clientRole (tok\<lparr>scope := [''billing.write'']\<rparr>) = consumer"
    and usr: "user (tok\<lparr>scope := [''billing.write'']\<rparr>) = Some 5"
    by (simp_all add: tok_def)
  have unauth: "getValidInvalidScopes world [''billing.write''] svc (Some alice) = Inr ([''billing.write''], [])"
    by (simp add: world_def svc_def alice_def)
  have none: "token_loop (getAccessTokensForScope world alice [''billing.write''])
       = Inl (CouldNotFindTokenForScopeError (Some ''billing.write''))"
    by (simp add: world_def)
  from role usr unauth none saved reached show ?thesis by blast
qed

section \<open>The resolver middleware: claim C9\<close>

text \<open>
  Claim C9. The middleware returns \<open>true\<close> with the response untouched, and does not
  throw, exactly when the path of the request begins with \<open>/auth\<close> or the resolver claims
  no location for the locator built from the request's scheme, host and path. A request
  outside \<open>/auth\<close> whose locator resolves is dispatched: what the middleware does is then
  what \<open>getHttpResponse\<close> gives for the resolved location.
\<close>

theorem C9_pass_through:
  "(ResolverMiddleware w req res = (Inr ReturnedTrue, res))
     = (take 5 (originalUrl req) = ''/auth'' \<or> resolve w (request_href req) = Inr None)
   \<and> (fst (ResolverMiddleware w req res) = Inr ReturnedTrue)
     = (take 5 (originalUrl req) = ''/auth'' \<or> resolve w (request_href req) = Inr None)
   \<and> (take 5 (originalUrl req) \<noteq> ''/auth'' \<and> resolve w (request_href req) = Inr (Some loc) \<longrightarrow>
        ResolverMiddleware w req res =
          (case getHttpResponse w req loc of
             Inl err \<Rightarrow> (Inl err, res)
           | Inr None \<Rightarrow> (Inr ReturnedUndefined, res)
           | Inr (Some r) \<Rightarrow> (Inr ReturnedUndefined, write_response r res)))"
  by (auto simp: ResolverMiddleware_def split: sum.splits option.splits)

lemmas web_eval =
  ResolverMiddleware_def getHttpResponse_def request_href_def write_response_def gateway_def
  get_request_def fresh_response_def echo_driver_def

theorem C9_pass_through_witness:
  "ResolverMiddleware gateway (get_request ''/auth/login'') fresh_response = (Inr ReturnedTrue, fresh_response)
   \<and> ResolverMiddleware gateway (get_request ''/nothing/here'') fresh_response = (Inr ReturnedTrue, fresh_response)
   \<and> ResolverMiddleware gateway (get_request ''/files/a'') fresh_response
       = (Inr ReturnedUndefined,
          \<lparr>res_status = Some 200, res_headers = [], res_body = Some ''ok'', res_ended = True\<rparr>)"
proof -
  have a: "take 5 (originalUrl (get_request ''/auth/login'')) = ''/auth''"
    by (simp add: get_request_def)
  have b: "resolve gateway (request_href (get_request ''/nothing/here'')) = Inr None"
    by (simp add: web_eval)
  let ?loc = "\<lparr>href = ''https://example.org/files/a'', auth = None, driver = ''echo''\<rparr>"
  have c: "take 5 (originalUrl (get_request ''/files/a'')) \<noteq> ''/auth''
           \<and> resolve gateway (request_href (get_request ''/files/a'')) = Inr (Some ?loc)"
    by (simp add: web_eval)
  have r: "getHttpResponse gateway (get_request ''/files/a'') ?loc
             = Inr (Some \<lparr>http_method = None, http_status = 200,
                           http_href = Some ''https://example.org/files/a'', http_headers = None,
                           http_body = Some ''ok''\<rparr>)"
    by (simp add: web_eval)
  from C9_pass_through[of gateway "get_request ''/auth/login''" fresh_response] a
  have x: "ResolverMiddleware gateway (get_request ''/auth/login'') fresh_response = (Inr ReturnedTrue, fresh_response)"
    by blast
  from C9_pass_through[of gateway "get_request ''/nothing/here''" fresh_response] b
  have y: "ResolverMiddleware gateway (get_request ''/nothing/here'') fresh_response = (Inr ReturnedTrue, fresh_response)"
    by blast
  from C9_pass_through[of gateway "get_request ''/files/a''" fresh_response ?loc] c
  have "ResolverMiddleware gateway (get_request ''/files/a'') fresh_response =
          (case getHttpResponse gateway (get_request ''/files/a'') ?loc of
             Inl err \<Rightarrow> (Inl err, fresh_response)
           | Inr None \<Rightarrow> (Inr ReturnedUndefined, fresh_response)
           | Inr (Some r) \<Rightarrow> (Inr ReturnedUndefined, write_response r fresh_response))"
    by blast
  then have z: "ResolverMiddleware gateway (get_request ''/files/a'') fresh_response
       = (Inr ReturnedUndefined,
          \<lparr>res_status = Some 200, res_headers = [], res_body = Some ''ok'', res_ended = True\<rparr>)"
    by (simp add: r write_response_def fresh_response_def)
  from x y z show ?thesis by blast
qed

section \<open>Saving and refreshing: claims C4, C5 and C6\<close>


lemma save_result:
  assumes "save e doc d = (Inr doc', d')"
  shows "\<exists>r. pre_save e doc = Inr (r, doc') \<and> oid doc \<notin> oid ` set (docs d)
           \<and> d' = post_save doc' (d\<lparr>docs := docs d @ [doc'], log := log d @ [Saved (oid doc)]\<rparr>)"
proof (cases "pre_save e doc")
  case (Inl err)
  with assms show ?thesis by (simp add: save_def)
next
  case (Inr p)
  obtain r x where p: "p = (r, x)" by (cases p)
  from pre_save_keeps(1)[of e doc r x] Inr p have "oid x = oid doc" by simp
  with assms Inr p show ?thesis
    by (auto simp: save_def split: if_splits)
qed


lemma post_save_refresh_token: "tokenType doc = refresh_token \<Longrightarrow> post_save doc d = d"
  by (simp add: post_save_def)




lemma pre_save_keeps_owner:
  assumes "pre_save e this = Inr (r, this')"
  shows "client this' = client this" and "user this' = user this" and "token this' = token this"
    and "clientRole this = consumer \<longrightarrow> scope this' = scope this"
    and "clientName this' = map_option name (Client_findById e (client this))"
  using assms
  by (auto simp: pre_save_def Let_def split: option.splits if_splits sum.splits prod.splits)

lemma post_save_keeps_doc: "doc \<in> set (docs d) \<Longrightarrow> doc \<in> set (docs (post_save doc d))"
  by (simp add: post_save_def deleteMany_def)












lemmas token_eval =
  svc_def alice_def world_def tok_def refresh_tok_def bearer_tok_def store0_def
  upstream_plain_def upstream_rotating_def pre_save_def save_def post_save_def deleteMany_def
  remove_def new_ObjectId_def findById_def fromFormalToken_def accessTokenFromRefresh_def
  refresh_grant_def defined_or_def scope_list_def Let_def








lemma getValidInvalidScopes_fetch:
  "getValidInvalidScopes (e\<lparr>fetch := f\<rparr>) scopes c u = getValidInvalidScopes e scopes c u"
  by (induction scopes) (auto split: option.splits sum.splits)

lemma pre_save_fetch: "pre_save (e\<lparr>fetch := f\<rparr>) this = pre_save e this"
  by (simp add: pre_save_def getValidInvalidScopes_fetch Let_def cong: option.case_cong sum.case_cong if_cong)

lemma save_fetch: "save (e\<lparr>fetch := f\<rparr>) doc d = save e doc d"
  by (simp add: save_def pre_save_fetch)

lemma consumer_refresh_no_fetch:
  "clientRole self = consumer \<Longrightarrow>
   accessTokenFromRefresh (e\<lparr>fetch := f\<rparr>) self d = accessTokenFromRefresh e self d"
  by (simp add: accessTokenFromRefresh_def save_fetch Let_def cong: option.case_cong sum.case_cong if_cong)

lemma consumer_refresh_result:
  assumes "clientRole self = consumer" and "accessTokenFromRefresh e self d = (Inr (Some a), d')"
  shows "\<exists>d1. save e \<lparr>oid = nextId d, tokenType = bearer, token = nanoid e,
                       linkedToken = Some (oid self),
                       expiresAt = Some (now e + config_expireTokenIn e),
                       scope = scope self, user = user self, client = client self,
                       clientRole = consumer, clientName = clientName self\<rparr> d1 = (Inr a, d')"
  using assms
  by (auto simp: accessTokenFromRefresh_def new_ObjectId_def Let_def
      split: option.splits if_splits sum.splits prod.splits)

text \<open>
  Claim C6 on the code. A consumer-role refresh makes no use of \<open>fetch\<close>. One that
  succeeds saves a bearer token with the scope, client and user of the token it was invoked
  on, the name of the client, and the identifier of that very token as its
  \<open>linkedToken\<close>. When the call is made on a bearer token, the new token is therefore
  linked to that bearer token and not to the refresh token of the pair.
\<close>

theorem C6_consumer_refresh_links_to_self:
  assumes "clientRole self = consumer" and "accessTokenFromRefresh e self d = (Inr (Some a), d')"
  shows "linkedToken a = Some (oid self) \<and> tokenType a = bearer \<and> scope a = scope self
         \<and> client a = client self \<and> user a = user self
         \<and> clientName a = map_option name (Client_findById e (client self))
         \<and> a \<in> set (docs d')
         \<and> accessTokenFromRefresh (e\<lparr>fetch := f\<rparr>) self d = (Inr (Some a), d')"
proof -
  have local: "accessTokenFromRefresh (e\<lparr>fetch := f\<rparr>) self d = (Inr (Some a), d')"
    using assms by (simp add: consumer_refresh_no_fetch)
  let ?new = "\<lparr>oid = nextId d, tokenType = bearer, token = nanoid e,
               linkedToken = Some (oid self),
               expiresAt = Some (now e + config_expireTokenIn e),
               scope = scope self, user = user self, client = client self,
               clientRole = consumer, clientName = clientName self\<rparr>"
  obtain d1 where saved: "save e ?new d1 = (Inr a, d')"
    using consumer_refresh_result[OF assms] by blast
  obtain r where pre: "pre_save e ?new = Inr (r, a)"
    and d': "d' = post_save a (d1\<lparr>docs := docs d1 @ [a], log := log d1 @ [Saved (oid ?new)]\<rparr>)"
    using save_result[OF saved] by blast
  have "a \<in> set (docs d')"
    unfolding d' by (rule post_save_keeps_doc) simp
  then show ?thesis
    using pre_save_keeps[OF pre] pre_save_keeps_owner[OF pre] local by simp
qed

lemma refresh_on_bearer_sample:
  "accessTokenFromRefresh world bearer_tok store0
     = (Inr (Some \<lparr>oid = 10, tokenType = bearer, token = ''n4n0'', linkedToken = Some 1,
                    expiresAt = Some 3601000, scope = [''read''], user = Some 5, client = 7,
                    clientRole = consumer, clientName = Some ''svc''\<rparr>),
        \<lparr>docs = [bearer_tok, refresh_tok,
                 \<lparr>oid = 10, tokenType = bearer, token = ''n4n0'', linkedToken = Some 1,
                  expiresAt = Some 3601000, scope = [''read''], user = Some 5, client = 7,
                  clientRole = consumer, clientName = Some ''svc''\<rparr>],
         nextId = 11, log = [Saved 10, DeletedMany []]\<rparr>)"
  by (simp add: token_eval)

theorem C6_consumer_refresh_links_to_self_witness:
  "tokenType bearer_tok = bearer \<and> linkedToken bearer_tok = Some (oid refresh_tok)
   \<and> findById store0 (oid refresh_tok) = Some refresh_tok \<and> tokenType refresh_tok = refresh_token
   \<and> linkedToken \<lparr>oid = 10, tokenType = bearer, token = ''n4n0'', linkedToken = Some 1,
                   expiresAt = Some 3601000, scope = [''read''], user = Some 5, client = 7,
                   clientRole = consumer, clientName = Some ''svc''\<rparr> = Some (oid bearer_tok)
   \<and> Some (oid bearer_tok) \<noteq> Some (oid refresh_tok)"
proof -
  have c: "clientRole bearer_tok = consumer" by (simp add: token_eval)
  from C6_consumer_refresh_links_to_self[OF c refresh_on_bearer_sample]
  have "linkedToken \<lparr>oid = 10, tokenType = bearer, token = ''n4n0'', linkedToken = Some 1,
                   expiresAt = Some 3601000, scope = [''read''], user = Some 5, client = 7,
                   clientRole = consumer, clientName = Some ''svc''\<rparr> = Some (oid bearer_tok)"
    by (rule conjunct1)
  moreover have "tokenType bearer_tok = bearer \<and> linkedToken bearer_tok = Some (oid refresh_tok)
   \<and> findById store0 (oid refresh_tok) = Some refresh_tok \<and> tokenType refresh_tok = refresh_token
   \<and> Some (oid bearer_tok) \<noteq> Some (oid refresh_tok)"
    by (simp add: token_eval)
  ultimately show ?thesis by blast
qed

end
